theory Spec2Isabelle
  imports Complex_Main "HOL-Library.Sublist" "HOL-Library.Char_ord" "HOL-Library.List_Lexorder"
begin

section \<open>Python strings\<close>

text \<open>
  A Python \<open>str\<close> is modelled as a \<open>string\<close> (a list of 8-bit characters). Text
  outside ASCII is its UTF-8 byte sequence; \<open>lower\<close> changes the letters \<open>A\<close> to
  \<open>Z\<close> only, which is what \<open>str.lower\<close> does on ASCII text. The model is exact
  for ASCII text. On text outside ASCII it differs from Python in two ways:
  \<open>str.lower\<close> also changes letters beyond \<open>A\<close> to \<open>Z\<close>, which \<open>lower\<close> leaves as
  they are, and a slice such as \<open>s[:200]\<close> counts characters where \<open>take 200\<close> counts
  bytes.
\<close>

definition lower_char :: "char \<Rightarrow> char" where
  "lower_char c =
     (if CHR ''A'' \<le> c \<and> c \<le> CHR ''Z'' then char_of (of_char c + (32::nat)) else c)"

definition lower :: "string \<Rightarrow> string" where
  "lower s = map lower_char s"

text \<open>\<open>sub in s\<close>: \<open>sub\<close> occurs in \<open>s\<close> as a contiguous run of characters.\<close>

fun py_in :: "string \<Rightarrow> string \<Rightarrow> bool" where
  "py_in sub [] = (sub = [])"
| "py_in sub (c # cs) = (prefix sub (c # cs) \<or> py_in sub cs)"

text \<open>\<open>any(keyword in s for keyword in keywords)\<close>\<close>

definition any_keyword_in :: "string list \<Rightarrow> string \<Rightarrow> bool" where
  "any_keyword_in keywords s = list_ex (\<lambda>keyword. py_in keyword s) keywords"

section \<open>Document processor\<close>

subsection \<open>Category assignment\<close>



fun first_match :: "(string \<times> string list) list \<Rightarrow> string \<Rightarrow> string" where
  "first_match [] s = ''general''"
| "first_match ((category, keywords) # rules) s =
     (if any_keyword_in keywords s then category else first_match rules s)"

subsection \<open>Chunker configuration\<close>

text \<open>
  The arguments of \<open>RecursiveCharacterTextSplitter(...)\<close> in \<open>__init__\<close>. In the source
  the first two separators are written with a doubled backslash, so the first is the four
  characters backslash, \<open>n\<close>, backslash, \<open>n\<close> and the second the two characters
  backslash, \<open>n\<close>.
\<close>

definition newline :: string where
  "newline = [CHR 0x0A]"

definition backslash_n :: string where
  "backslash_n = [CHR 0x5C, CHR ''n'']"

record text_splitter_config =
  chunk_size :: nat
  chunk_overlap :: nat
  separators :: "string list"

definition text_splitter :: text_splitter_config where
  "text_splitter =
     \<lparr>chunk_size = 1000, chunk_overlap = 200,
      separators = [backslash_n @ backslash_n, backslash_n, '' '', []]\<rparr>"

subsection \<open>Ingestion\<close>

text \<open>
  Metadata values written by this repository are strings (\<open>source\<close>, \<open>type\<close>,
  \<open>category\<close>, ...) and integers (\<open>pages\<close>, \<open>paragraphs\<close>).
\<close>

datatype mvalue = MStr string | MInt int

type_synonym metadata = "string \<rightharpoonup> mvalue"

record document =
  page_content :: string
  doc_metadata :: metadata

text \<open>\<open>str(i)\<close> for a non-negative integer: its decimal digits.\<close>

definition digit_char :: "nat \<Rightarrow> char" where
  "digit_char d = char_of (48 + d)"

function str_nat :: "nat \<Rightarrow> string" where
  "str_nat n = (if n < 10 then [digit_char n] else str_nat (n div 10) @ [digit_char (n mod 10)])"
  by pat_completeness auto
termination
  by (relation "measure (\<lambda>n. n)") auto

declare str_nat.simps [simp del]

text \<open>\<open>f"doc_{i}"\<close>\<close>

definition doc_id :: "nat \<Rightarrow> string" where
  "doc_id i = ''doc_'' @ str_nat i"

text \<open>The arguments of one \<open>collection.add(documents=..., metadatas=..., ids=...)\<close> call.\<close>

record add_request =
  add_documents :: "string list"
  add_metadatas :: "metadata list"
  add_ids :: "string list"

text \<open>
  \<open>DocumentProcessor.ingest_documents\<close>. The splitter is the external text splitter,
  taken as a function from a document to its chunks. The function returns nothing; its
  effect is the single \<open>collection.add\<close> call it makes (whose exception it catches and
  logs), or no call at all when \<open>documents\<close> is empty. The model returns that call.
\<close>

definition ingest_documents :: "(document \<Rightarrow> document list) \<Rightarrow> document list \<Rightarrow> add_request option" where
  "ingest_documents split_documents documents =
     (if documents = [] then None
      else
        let chunks = concat (map split_documents documents);
            texts = map page_content chunks;
            metadatas = map doc_metadata chunks;
            ids = map doc_id [0..<length chunks]
        in Some \<lparr>add_documents = texts, add_metadatas = metadatas, add_ids = ids\<rparr>)"

section \<open>Vector store\<close>

text \<open>
  The collection is an external service. A \<open>collection\<close> value gives what each of its
  read operations answers: a result, or the exception it raises. Distances are Python
  floats, modelled as reals.
\<close>

datatype exn = StoreError string | TypeError | IndexError | AttributeError

record query_request =
  query_texts :: "string list"
  n_results :: int
  where_filter :: "(string \<times> mvalue) list option"
  include_fields :: "string list"

record query_result =
  documents :: "string list list option"
  metadatas :: "metadata list list option"
  distances :: "real list list option"

record get_request =
  get_limit :: int
  get_include :: "string list"

record get_result =
  got_metadatas :: "metadata list option"

record collection =
  coll_query :: "query_request \<Rightarrow> exn + query_result"
  coll_count :: "exn + int"
  coll_get :: "get_request \<Rightarrow> exn + get_result"

text \<open>Sequencing of steps that may raise, and \<open>try: ... except Exception: ...\<close>.\<close>

definition rbind :: "exn + 'a \<Rightarrow> ('a \<Rightarrow> exn + 'b) \<Rightarrow> exn + 'b" where
  "rbind m f = (case m of Inl e \<Rightarrow> Inl e | Inr x \<Rightarrow> f x)"

definition try_except :: "exn + 'a \<Rightarrow> (exn \<Rightarrow> exn + 'a) \<Rightarrow> exn + 'a" where
  "try_except body handler = (case body of Inl e \<Rightarrow> handler e | Inr x \<Rightarrow> Inr x)"

text \<open>\<open>x[0]\<close> where \<open>x\<close> is a list or \<open>None\<close>, and \<open>xs[i]\<close> for \<open>i \<ge> 0\<close>.\<close>

definition py_first :: "'a list option \<Rightarrow> exn + 'a" where
  "py_first x = (case x of None \<Rightarrow> Inl TypeError | Some [] \<Rightarrow> Inl IndexError | Some (r # _) \<Rightarrow> Inr r)"

definition py_index :: "'a list \<Rightarrow> nat \<Rightarrow> exn + 'a" where
  "py_index xs i = (if i < length xs then Inr (xs ! i) else Inl IndexError)"

text \<open>
  A reference collection for concrete instances: stored records in storage order and a
  distance between a query text and a stored text (the embedding distance). A query
  keeps the records that satisfy the \<open>where\<close> filter, ranks them by ascending distance
  and answers the first \<open>n_results\<close>, one row per query text; \<open>get\<close> answers the
  metadata of the first \<open>limit\<close> records; \<open>count\<close> is the number of records.
\<close>

record stored_vector =
  sv_id :: string
  sv_text :: string
  sv_metadata :: metadata

definition matches_where :: "(string \<times> mvalue) list option \<Rightarrow> metadata \<Rightarrow> bool" where
  "matches_where w m =
     (case w of None \<Rightarrow> True | Some conds \<Rightarrow> list_all (\<lambda>kv. m (fst kv) = Some (snd kv)) conds)"

definition nearest :: "(string \<Rightarrow> string \<Rightarrow> real) \<Rightarrow> stored_vector list \<Rightarrow> query_request \<Rightarrow> string \<Rightarrow> stored_vector list" where
  "nearest distance recs req q =
     take (nat (n_results req))
       (sort_key (\<lambda>r. distance q (sv_text r))
          (filter (\<lambda>r. matches_where (where_filter req) (sv_metadata r)) recs))"

definition list_store :: "(string \<Rightarrow> string \<Rightarrow> real) \<Rightarrow> stored_vector list \<Rightarrow> collection" where
  "list_store distance recs =
     \<lparr>coll_query = (\<lambda>req.
        if n_results req \<le> 0 then Inl (StoreError ''n_results must be positive'')
        else Inr \<lparr>documents = Some (map (\<lambda>q. map sv_text (nearest distance recs req q)) (query_texts req)),
                  metadatas = Some (map (\<lambda>q. map sv_metadata (nearest distance recs req q)) (query_texts req)),
                  distances = Some (map (\<lambda>q. map (\<lambda>r. distance q (sv_text r)) (nearest distance recs req q))
                                     (query_texts req))\<rparr>),
      coll_count = Inr (int (length recs)),
      coll_get = (\<lambda>req. Inr \<lparr>got_metadatas = Some (map sv_metadata (take (nat (get_limit req)) recs))\<rparr>)\<rparr>"

section \<open>Retrieval\<close>

record ctx =
  content :: string
  metadata :: metadata
  relevance_score :: real

text \<open>
  The dictionary built in the loop body, for index \<open>i\<close>: each of the three lookups
  raises when its list is \<open>None\<close>, empty, or too short.
\<close>

definition make_context :: "query_result \<Rightarrow> nat \<Rightarrow> exn + ctx" where
  "make_context results i =
     rbind (py_first (documents results)) (\<lambda>documents0.
     rbind (py_index documents0 i) (\<lambda>d.
     rbind (py_first (metadatas results)) (\<lambda>metadatas0.
     rbind (py_index metadatas0 i) (\<lambda>m.
     rbind (py_first (distances results)) (\<lambda>distances0.
     rbind (py_index distances0 i) (\<lambda>x.
       Inr \<lparr>content = d, metadata = m, relevance_score = 1 - x\<rparr>))))))"

text \<open>The loop \<open>for i in range(...): contexts.append(context)\<close> over the given indices.\<close>

fun collect_contexts :: "query_result \<Rightarrow> nat list \<Rightarrow> exn + ctx list" where
  "collect_contexts results [] = Inr []"
| "collect_contexts results (i # rest) =
     (case make_context results i of
        Inl e \<Rightarrow> Inl e
      | Inr c \<Rightarrow> (case collect_contexts results rest of Inl e \<Rightarrow> Inl e | Inr cs \<Rightarrow> Inr (c # cs)))"

text \<open>\<open>results['documents'] and results['documents'][0]\<close> as a truth value.\<close>

definition has_documents :: "query_result \<Rightarrow> bool" where
  "has_documents results =
     (case documents results of None \<Rightarrow> False | Some [] \<Rightarrow> False | Some (documents0 # _) \<Rightarrow> documents0 \<noteq> [])"

text \<open>The first row of a result field, read after the guard above has passed.\<close>

definition row0 :: "'a list list option \<Rightarrow> 'a list" where
  "row0 x = (case x of None \<Rightarrow> [] | Some [] \<Rightarrow> [] | Some (r # _) \<Rightarrow> r)"

text \<open>\<open>DevSecOpsRAG.retrieve_context\<close>\<close>

definition retrieve_request :: "string \<Rightarrow> int \<Rightarrow> query_request" where
  "retrieve_request query n =
     \<lparr>query_texts = [query], n_results = n, where_filter = None,
      include_fields = [''documents'', ''metadatas'', ''distances'']\<rparr>"

definition retrieve_context :: "collection \<Rightarrow> string \<Rightarrow> int \<Rightarrow> exn + ctx list" where
  "retrieve_context coll query n =
     try_except
       (rbind (coll_query coll (retrieve_request query n)) (\<lambda>results.
          if has_documents results
          then collect_contexts results [0..<length (row0 (documents results))]
          else Inr []))
       (\<lambda>e. Inr [])"

text \<open>\<open>DevSecOpsRAG.search_by_category\<close>\<close>

definition category_request :: "string \<Rightarrow> string \<Rightarrow> int \<Rightarrow> query_request" where
  "category_request query category n =
     \<lparr>query_texts = [query], n_results = n * 2,
      where_filter = Some [(''category'', MStr category)],
      include_fields = [''documents'', ''metadatas'', ''distances'']\<rparr>"

definition search_by_category :: "collection \<Rightarrow> string \<Rightarrow> string \<Rightarrow> int \<Rightarrow> exn + ctx list" where
  "search_by_category coll query category n =
     try_except
       (rbind (coll_query coll (category_request query category n)) (\<lambda>results.
          if has_documents results
          then collect_contexts results
                 [0..<nat (min n (int (length (row0 (documents results)))))]
          else Inr []))
       (\<lambda>e. Inr [])"

section \<open>Responder\<close>

subsection \<open>String operations\<close>

text \<open>
  \<open>str.strip()\<close> removes leading and trailing whitespace; on ASCII text these are the
  characters below. \<open>s.split(sep)\<close> cuts at each occurrence of \<open>sep\<close>, left to right;
  the separators of this program are never empty. \<open>sep.join(xs)\<close> and
  \<open>str.replace('_', ' ')\<close> are as in Python; \<open>str.title()\<close> upper-cases a letter that
  follows a character without case and lower-cases one that follows a letter.
\<close>

definition is_space :: "char \<Rightarrow> bool" where
  "is_space c =
     (c \<in> set [CHR '' '', CHR 0x09, CHR 0x0A, CHR 0x0B, CHR 0x0C, CHR 0x0D,
               CHR 0x1C, CHR 0x1D, CHR 0x1E, CHR 0x1F])"

definition strip :: "string \<Rightarrow> string" where
  "strip s = rev (dropWhile is_space (rev (dropWhile is_space s)))"

function split_from :: "string \<Rightarrow> string \<Rightarrow> string \<Rightarrow> string list" where
  "split_from sep current [] = [current]"
| "split_from sep current (c # cs) =
     (if sep \<noteq> [] \<and> prefix sep (c # cs)
      then current # split_from sep [] (drop (length sep) (c # cs))
      else split_from sep (current @ [c]) cs)"
  by pat_completeness auto
termination
  by (relation "measure (\<lambda>(sep, current, s). length s)") auto

definition py_split :: "string \<Rightarrow> string \<Rightarrow> string list" where
  "py_split s sep = split_from sep [] s"

fun join :: "string \<Rightarrow> string list \<Rightarrow> string" where
  "join sep [] = []"
| "join sep [x] = x"
| "join sep (x # y # ys) = x @ sep @ join sep (y # ys)"

definition replace_underscores :: "string \<Rightarrow> string" where
  "replace_underscores s = map (\<lambda>c. if c = CHR ''_'' then CHR '' '' else c) s"

definition is_upper :: "char \<Rightarrow> bool" where
  "is_upper c = (CHR ''A'' \<le> c \<and> c \<le> CHR ''Z'')"

definition is_lower :: "char \<Rightarrow> bool" where
  "is_lower c = (CHR ''a'' \<le> c \<and> c \<le> CHR ''z'')"

definition upper_char :: "char \<Rightarrow> char" where
  "upper_char c = (if is_lower c then char_of (of_char c - (32::nat)) else c)"

fun title_from :: "bool \<Rightarrow> string \<Rightarrow> string" where
  "title_from previous_is_cased [] = []"
| "title_from previous_is_cased (c # cs) =
     (if previous_is_cased then lower_char c else upper_char c)
       # title_from (is_upper c \<or> is_lower c) cs"

definition title :: "string \<Rightarrow> string" where
  "title s = title_from False s"

text \<open>
  \<open>Path(s).name\<close> for a POSIX path: the last component of the path, where empty
  components and \<open>.\<close> components do not count; the empty string when there is none.
\<close>

definition path_name :: "string \<Rightarrow> string" where
  "path_name s =
     (case filter (\<lambda>part. part \<noteq> [] \<and> part \<noteq> ''.'') (py_split s ''/'') of
        [] \<Rightarrow> []
      | part # parts \<Rightarrow> last (part # parts))"

definition bullet :: string where
  "bullet = [CHR 0xE2, CHR 0x80, CHR 0xA2]"

text \<open>A literal of the form \<open>"\<bullet> a\n\<bullet> b\n\<bullet> c"\<close>, given by its items.\<close>

definition bullets :: "string list \<Rightarrow> string" where
  "bullets items = join newline (map (\<lambda>item. bullet @ '' '' @ item) items)"

subsection \<open>Context string\<close>

definition no_context_string :: string where
  "no_context_string = ''No relevant context found in Moses's knowledge base.''"

text \<open>
  The two lines appended for one context. \<open>.replace\<close> on a category that is not a
  string raises \<open>AttributeError\<close>; \<open>Path\<close> of a source that is not a string raises
  \<open>TypeError\<close>. Neither is caught in \<open>prepare_context_string\<close>.
\<close>

definition context_block :: "nat \<Rightarrow> ctx \<Rightarrow> exn + string" where
  "context_block i c =
     rbind (case metadata c ''category'' of
              None \<Rightarrow> Inr ''general''
            | Some (MStr s) \<Rightarrow> Inr s
            | Some (MInt _) \<Rightarrow> Inl AttributeError) (\<lambda>category_value.
     let category = title (replace_underscores category_value) in
     rbind (case metadata c ''source'' of
              None \<Rightarrow> Inr ''Unknown''
            | Some (MStr s) \<Rightarrow> Inr s
            | Some (MInt _) \<Rightarrow> Inl TypeError) (\<lambda>source_value.
     let source = path_name source_value in
     Inr (''[Source '' @ str_nat i @ '' - '' @ category @ ''] ('' @ source @ ''):'' @ backslash_n
          @ content c @ backslash_n @ backslash_n)))"

fun context_loop :: "nat \<Rightarrow> ctx list \<Rightarrow> string \<Rightarrow> exn + string" where
  "context_loop i [] context_string = Inr context_string"
| "context_loop i (c # cs) context_string =
     (case context_block i c of
        Inl e \<Rightarrow> Inl e
      | Inr block \<Rightarrow> context_loop (Suc i) cs (context_string @ block))"

text \<open>\<open>DevSecOpsRAG.prepare_context_string\<close>\<close>

definition prepare_context_string :: "ctx list \<Rightarrow> exn + string" where
  "prepare_context_string contexts =
     (if contexts = [] then Inr no_context_string
      else context_loop 1 contexts
             (''RELEVANT KNOWLEDGE FROM MOSES'S EXPERTISE:'' @ backslash_n @ backslash_n))"

subsection \<open>The three sections\<close>

text \<open>\<open>DevSecOpsRAG._extract_key_points\<close>: the loop, then the function.\<close>

fun key_points_loop :: "string list \<Rightarrow> string list \<Rightarrow> string list" where
  "key_points_loop [] key_points = key_points"
| "key_points_loop (line # lines) key_points =
     (if strip line \<noteq> [] \<and> \<not> prefix ''RELEVANT KNOWLEDGE'' line \<and> \<not> prefix ''[Source'' line
      then
        if any_keyword_in [''security'', ''implement'', ''deploy'', ''configure'', ''best practice'']
             (lower line)
        then
          let key_points' = key_points @ [bullet @ '' '' @ take 200 (strip line)]
          in if length key_points' \<ge> 3 then key_points' else key_points_loop lines key_points'
        else key_points_loop lines key_points
      else key_points_loop lines key_points)"

definition extract_key_points :: "string \<Rightarrow> string" where
  "extract_key_points context =
     (let lines = py_split context backslash_n;
          key_points = key_points_loop lines []
      in if key_points \<noteq> [] then join newline key_points
         else bullet @ '' Relevant technical documentation and implementation guides available'')"

text \<open>\<open>DevSecOpsRAG._generate_recommendations\<close>\<close>

definition kubernetes_recommendations :: string where
  "kubernetes_recommendations =
     bullets [''Implement RBAC and network policies'', ''Use Pod Security Standards'',
              ''Regular security scanning of container images'',
              ''Monitor cluster activity with audit logging'']"

definition cicd_recommendations :: string where
  "cicd_recommendations =
     bullets [''Integrate SAST/DAST tools in pipeline'', ''Use secure secrets management'',
              ''Implement branch protection rules'',
              ''Automated security testing at each stage'']"

definition cloud_recommendations :: string where
  "cloud_recommendations =
     bullets [''Follow AWS Well-Architected Security Pillar'',
              ''Implement least privilege IAM policies'', ''Enable CloudTrail and GuardDuty'',
              ''Use AWS Config for compliance monitoring'']"

definition ai_recommendations :: string where
  "ai_recommendations =
     bullets [''Implement MLSecOps practices'', ''Secure model training pipelines'',
              ''Monitor for model drift and bias'', ''Protect sensitive training data'']"

definition general_recommendations :: string where
  "general_recommendations =
     bullets [''Follow security-first development practices'',
              ''Implement proper monitoring and logging'',
              ''Regular security assessments and updates'',
              ''Documentation and knowledge sharing'']"

definition generate_recommendations :: "string \<Rightarrow> string \<Rightarrow> string" where
  "generate_recommendations query context =
     (let query_lower = lower query in
      if py_in ''kubernetes'' query_lower \<or> py_in ''k8s'' query_lower
      then kubernetes_recommendations
      else if py_in ''ci/cd'' query_lower \<or> py_in ''pipeline'' query_lower
      then cicd_recommendations
      else if py_in ''aws'' query_lower \<or> py_in ''cloud'' query_lower
      then cloud_recommendations
      else if py_in ''ai'' query_lower \<or> py_in ''ml'' query_lower \<or> py_in ''model'' query_lower
      then ai_recommendations
      else general_recommendations)"

text \<open>\<open>DevSecOpsRAG._extract_security_points\<close>: the loop, then the function.\<close>

fun security_points_loop :: "string list \<Rightarrow> string list \<Rightarrow> string list" where
  "security_points_loop [] security_points = security_points"
| "security_points_loop (line # lines) security_points =
     (if any_keyword_in
           [''security'', ''secure'', ''vulnerability'', ''threat'', ''risk'', ''compliance'',
            ''audit'']
           (lower line)
      then
        let clean_line = strip line in
        if clean_line \<noteq> [] \<and> \<not> prefix ''[Source'' clean_line
        then
          let security_points' = security_points @ [bullet @ '' '' @ take 150 clean_line]
          in if length security_points' \<ge> 2 then security_points'
             else security_points_loop lines security_points'
        else security_points_loop lines security_points
      else security_points_loop lines security_points)"

definition extract_security_points :: "string \<Rightarrow> string" where
  "extract_security_points context =
     (let lines = py_split context backslash_n;
          security_points = security_points_loop lines []
      in if security_points \<noteq> [] then join newline security_points
         else bullets [''Always prioritize security in implementation'',
                       ''Regular security reviews and updates recommended''])"

subsection \<open>Answer\<close>

definition no_information_answer :: string where
  "no_information_answer =
     ''I don't have specific information about that topic in Moses Omondi's knowledge base. ''
     @ ''Please try a more specific question about DevSecOps, CI/CD security, AWS, Kubernetes, ''
     @ ''or AI/ML engineering.''"

text \<open>The text of the f-string in \<open>generate_response\<close>, before \<open>.strip()\<close>.\<close>

definition structured_response :: "string \<Rightarrow> string \<Rightarrow> string" where
  "structured_response query context =
     ''Based on Moses Omondi's expertise, here's what I can tell you about your question: ''
     @ [CHR 0x22] @ query @ [CHR 0x22] @ newline
     @ newline
     @ ''**Key Information:**'' @ newline
     @ extract_key_points context @ newline
     @ newline
     @ ''**Practical Recommendations:**'' @ newline
     @ generate_recommendations query context @ newline
     @ newline
     @ ''**Security Considerations:**'' @ newline
     @ extract_security_points context @ newline
     @ newline
     @ ''*This response is based on Moses Omondi's documented experience in DevSecOps, ''
     @ ''AI Engineering, and Cloud Architecture.*'' @ newline"

text \<open>
  \<open>DevSecOpsRAG.generate_response\<close>. Nothing in its \<open>try\<close> block raises on string
  arguments, so the \<open>except\<close> branch is not part of the model.
\<close>

definition generate_response :: "string \<Rightarrow> string \<Rightarrow> string" where
  "generate_response query context =
     (if py_in ''No relevant context'' context then no_information_answer
      else strip (structured_response query context))"

text \<open>
  \<open>DevSecOpsRAG.query\<close>: retrieval, context string, answer. The processing time it
  also reports is a wall-clock reading and is left out. \<open>answer_from\<close> is its second
  and third step, from the retrieved contexts to the answer text.
\<close>

definition answer_from :: "string \<Rightarrow> ctx list \<Rightarrow> exn + string" where
  "answer_from question contexts =
     rbind (prepare_context_string contexts) (\<lambda>context_string.
       Inr (generate_response question context_string))"

record query_answer =
  answer :: string
  answer_contexts :: "ctx list"
  sources_used :: nat
  answer_query :: string

definition rag_query :: "collection \<Rightarrow> string \<Rightarrow> int \<Rightarrow> exn + query_answer" where
  "rag_query coll question n_contexts =
     rbind (retrieve_context coll question n_contexts) (\<lambda>contexts.
     rbind (answer_from question contexts) (\<lambda>answer_text.
       Inr \<lparr>answer = answer_text, answer_contexts = contexts,
            sources_used = length contexts, answer_query = question\<rparr>))"

section \<open>Knowledge base information\<close>

text \<open>
  \<open>sorted(...)\<close> on metadata values: strings compare with strings (by character codes,
  lexicographically) and integers with integers; comparing a string with an integer
  raises \<open>TypeError\<close>.
\<close>

fun strings_of :: "mvalue list \<Rightarrow> string list option" where
  "strings_of [] = Some []"
| "strings_of (MStr s # vs) = map_option (\<lambda>ss. s # ss) (strings_of vs)"
| "strings_of (MInt _ # vs) = None"

fun ints_of :: "mvalue list \<Rightarrow> int list option" where
  "ints_of [] = Some []"
| "ints_of (MInt i # vs) = map_option (\<lambda>is. i # is) (ints_of vs)"
| "ints_of (MStr _ # vs) = None"

definition py_sorted :: "mvalue list \<Rightarrow> exn + mvalue list" where
  "py_sorted vs =
     (case strings_of vs of
        Some ss \<Rightarrow> Inr (map MStr (sort ss))
      | None \<Rightarrow> (case ints_of vs of
                   Some is \<Rightarrow> Inr (map MInt (sort is))
                 | None \<Rightarrow> Inl TypeError))"

text \<open>The order that \<open>sorted\<close> establishes.\<close>

fun mvalue_le :: "mvalue \<Rightarrow> mvalue \<Rightarrow> bool" where
  "mvalue_le (MStr a) (MStr b) = (a \<le> b)"
| "mvalue_le (MInt a) (MInt b) = (a \<le> b)"
| "mvalue_le _ _ = False"

text \<open>
  The loop that fills the set \<open>categories\<close>; the set is kept as a list without
  duplicates.
\<close>

fun add_categories :: "metadata list \<Rightarrow> mvalue list \<Rightarrow> mvalue list" where
  "add_categories [] categories = categories"
| "add_categories (m # ms) categories =
     (case m ''category'' of
        None \<Rightarrow> add_categories ms categories
      | Some c \<Rightarrow> add_categories ms (List.insert c categories))"

record kb_info =
  total_documents :: int
  categories :: "mvalue list"
  status :: string
  error :: "exn option"

text \<open>\<open>DevSecOpsRAG.get_knowledge_base_info\<close>\<close>

definition get_knowledge_base_info :: "collection \<Rightarrow> kb_info" where
  "get_knowledge_base_info coll =
     (case
        rbind (coll_count coll) (\<lambda>count.
        rbind (coll_get coll \<lparr>get_limit = 100, get_include = [''metadatas'']\<rparr>) (\<lambda>sample_results.
        let categories =
              (case got_metadatas sample_results of
                 None \<Rightarrow> []
               | Some [] \<Rightarrow> []
               | Some (m # ms) \<Rightarrow> add_categories (m # ms) [])
        in rbind (py_sorted categories) (\<lambda>sorted_categories.
             Inr \<lparr>total_documents = count, categories = sorted_categories,
                  status = ''active'', error = None\<rparr>)))
      of
        Inr info \<Rightarrow> info
      | Inl e \<Rightarrow> \<lparr>total_documents = 0, categories = [], status = ''error'', error = Some e\<rparr>)"

subsection \<open>A small collection for concrete instances\<close>

definition md_infrastructure :: metadata where
  "md_infrastructure = [''category'' \<mapsto> MStr ''infrastructure'', ''source'' \<mapsto> MStr ''docs/k8s.md'']"

definition md_security :: metadata where
  "md_security = [''category'' \<mapsto> MStr ''security'', ''source'' \<mapsto> MStr ''docs/audit.md'']"

definition example_distance :: "string \<Rightarrow> string \<Rightarrow> real" where
  "example_distance q t = (if t = ''k8s rbac'' then 1 / 4 else 3 / 2)"

definition example_records :: "stored_vector list" where
  "example_records =
     [\<lparr>sv_id = ''doc_0'', sv_text = ''k8s rbac'', sv_metadata = md_infrastructure\<rparr>,
      \<lparr>sv_id = ''doc_1'', sv_text = ''audit policy'', sv_metadata = md_security\<rparr>]"

definition example_store :: collection where
  "example_store = list_store example_distance example_records"

text \<open>A collection of 101 records: a hundred of category security, then one of another.\<close>

definition large_records :: "stored_vector list" where
  "large_records =
     map (\<lambda>i. \<lparr>sv_id = doc_id i, sv_text = ''audit policy'', sv_metadata = md_security\<rparr>) [0..<100]
     @ [\<lparr>sv_id = doc_id 100, sv_text = ''k8s rbac'', sv_metadata = md_infrastructure\<rparr>]"

definition large_store :: collection where
  "large_store = list_store example_distance large_records"

text \<open>Two short documents, and a splitter that leaves a short document in one chunk.\<close>

definition audit_document :: document where
  "audit_document = \<lparr>page_content = ''audit policy'', doc_metadata = md_security\<rparr>"

definition cluster_document :: document where
  "cluster_document = \<lparr>page_content = ''k8s rbac'', doc_metadata = md_infrastructure\<rparr>"

definition one_chunk :: "document \<Rightarrow> document list" where
  "one_chunk d = [d]"

section \<open>Facts about the substring test\<close>

lemma py_in_sublist: "py_in sub s = sublist sub s"
  by (induction s) (simp_all add: sublist_Cons_right)

lemma py_in_append: "py_in sub b \<Longrightarrow> py_in sub (a @ b @ c)"
  unfolding py_in_sublist sublist_def by (metis append.assoc)

section \<open>Category assignment is an ordered first-match table\<close>

lemma first_match_no_rule:
  "list_all (\<lambda>rule. \<not> any_keyword_in (snd rule) s) rules \<Longrightarrow> first_match rules s = ''general''"
  by (induction rules) auto











section \<open>Facts about retrieval\<close>

lemma make_context_Inr:
  assumes "make_context results i = Inr c"
  shows "i < length (row0 (documents results)) \<and> content c = row0 (documents results) ! i
       \<and> i < length (row0 (metadatas results)) \<and> metadata c = row0 (metadatas results) ! i
       \<and> i < length (row0 (distances results))
       \<and> relevance_score c = 1 - row0 (distances results) ! i"
  using assms
  by (auto simp: make_context_def rbind_def py_first_def py_index_def row0_def
      split: sum.splits option.splits list.splits if_splits)

lemma collect_contexts_Inr:
  "collect_contexts results idx = Inr cs \<Longrightarrow>
     length cs = length idx \<and> (\<forall>j<length idx. make_context results (idx ! j) = Inr (cs ! j))"
proof (induction idx arbitrary: cs)
  case Nil
  then show ?case by simp
next
  case (Cons i rest)
  from Cons.prems obtain c cs' where c: "make_context results i = Inr c"
    and cs': "collect_contexts results rest = Inr cs'" and cs: "cs = c # cs'"
    by (auto split: sum.splits)
  from Cons.IH [OF cs'] c cs show ?case
    by (auto simp: nth_Cons split: nat.splits)
qed

lemma collect_contexts_upt:
  assumes "collect_contexts results [0..<k] = Inr cs" and "i < length cs"
  shows "make_context results i = Inr (cs ! i)"
proof -
  from collect_contexts_Inr [OF assms(1)] assms(2) have "i < k"
    and "make_context results ([0..<k] ! i) = Inr (cs ! i)" by auto
  then show ?thesis by simp
qed

lemma retrieve_context_cases:
  assumes "coll_query coll (retrieve_request query n) = Inr results"
    and "retrieve_context coll query n = Inr contexts"
  shows "contexts = [] \<or>
         collect_contexts results [0..<length (row0 (documents results))] = Inr contexts"
  using assms
  by (auto simp: retrieve_context_def try_except_def rbind_def split: sum.splits if_splits)

lemma search_by_category_cases:
  assumes "coll_query coll (category_request query category n) = Inr results"
    and "search_by_category coll query category n = Inr contexts"
  shows "contexts = [] \<or>
         collect_contexts results [0..<nat (min n (int (length (row0 (documents results)))))]
           = Inr contexts"
  using assms
  by (auto simp: search_by_category_def try_except_def rbind_def split: sum.splits if_splits)

lemma search_by_category_returns: "\<exists>contexts. search_by_category coll query category n = Inr contexts"
  by (auto simp: search_by_category_def try_except_def split: sum.splits)

lemma retrieve_context_returns: "\<exists>contexts. retrieve_context coll query n = Inr contexts"
  by (auto simp: retrieve_context_def try_except_def split: sum.splits)

lemma retrieve_context_empty_store:
  "retrieve_context (list_store distance []) query n = Inr []"
  by (simp add: retrieve_context_def try_except_def rbind_def list_store_def
      retrieve_request_def nearest_def has_documents_def)

section \<open>The example collection, evaluated\<close>

lemma example_query_all:
  "coll_query example_store (retrieve_request ''rbac'' 2) =
     Inr \<lparr>documents = Some [[''k8s rbac'', ''audit policy'']],
          metadatas = Some [[md_infrastructure, md_security]],
          distances = Some [[1 / 4, 3 / 2]]\<rparr>"
  by (simp add: example_store_def list_store_def retrieve_request_def nearest_def
      example_records_def example_distance_def matches_where_def)

lemma example_retrieve_all:
  "retrieve_context example_store ''rbac'' 2 =
     Inr [\<lparr>content = ''k8s rbac'', metadata = md_infrastructure, relevance_score = 3 / 4\<rparr>,
          \<lparr>content = ''audit policy'', metadata = md_security, relevance_score = - 1 / 2\<rparr>]"
  by (simp add: retrieve_context_def try_except_def rbind_def example_query_all has_documents_def
      row0_def make_context_def py_first_def py_index_def upt_rec)

lemma example_query_security:
  "coll_query example_store (category_request ''rbac'' ''security'' 1) =
     Inr \<lparr>documents = Some [[''audit policy'']],
          metadatas = Some [[md_security]],
          distances = Some [[3 / 2]]\<rparr>"
  by (simp add: example_store_def list_store_def category_request_def nearest_def
      example_records_def example_distance_def matches_where_def md_security_def
      md_infrastructure_def)

lemma example_search_security:
  "search_by_category example_store ''rbac'' ''security'' 1 =
     Inr [\<lparr>content = ''audit policy'', metadata = md_security, relevance_score = - 1 / 2\<rparr>]"
  by (simp add: search_by_category_def try_except_def rbind_def example_query_security
      has_documents_def row0_def make_context_def py_first_def py_index_def upt_rec)

section \<open>Relevance scores\<close>

text \<open>
  Claim C2. In both retrieval functions, the result at position \<open>i\<close> carries the text
  the store reported at position \<open>i\<close> and a relevance score that is exactly one minus
  the distance the store reported at position \<open>i\<close>; nothing clamps it, so whenever the
  reported distance is greater than 1 the score is negative.
\<close>

theorem relevance_score_one_minus_distance:
  "(coll_query coll (retrieve_request query n) = Inr results
      \<and> retrieve_context coll query n = Inr contexts \<and> i < length contexts
    \<longrightarrow> i < length (row0 (distances results))
        \<and> content (contexts ! i) = row0 (documents results) ! i
        \<and> relevance_score (contexts ! i) = 1 - row0 (distances results) ! i
        \<and> (1 < row0 (distances results) ! i \<longrightarrow> relevance_score (contexts ! i) < 0))
   \<and> (coll_query coll (category_request query category n) = Inr results'
      \<and> search_by_category coll query category n = Inr contexts' \<and> j < length contexts'
    \<longrightarrow> j < length (row0 (distances results'))
        \<and> content (contexts' ! j) = row0 (documents results') ! j
        \<and> relevance_score (contexts' ! j) = 1 - row0 (distances results') ! j
        \<and> (1 < row0 (distances results') ! j \<longrightarrow> relevance_score (contexts' ! j) < 0))"
proof (intro conjI impI; elim conjE)
  assume q: "coll_query coll (retrieve_request query n) = Inr results"
    and r: "retrieve_context coll query n = Inr contexts" and i: "i < length contexts"
  from retrieve_context_cases [OF q r] i
  have "collect_contexts results [0..<length (row0 (documents results))] = Inr contexts"
    by auto
  from collect_contexts_upt [OF this i] have mk: "make_context results i = Inr (contexts ! i)" .
  note facts = make_context_Inr [OF mk]
  from facts show "i < length (row0 (distances results))" by simp
  from facts show "content (contexts ! i) = row0 (documents results) ! i" by simp
  from facts show "relevance_score (contexts ! i) = 1 - row0 (distances results) ! i" by simp
  assume "1 < row0 (distances results) ! i"
  with facts show "relevance_score (contexts ! i) < 0" by simp
next
  assume q: "coll_query coll (category_request query category n) = Inr results'"
    and r: "search_by_category coll query category n = Inr contexts'"
    and j: "j < length contexts'"
  from search_by_category_cases [OF q r] j
  have "collect_contexts results' [0..<nat (min n (int (length (row0 (documents results')))))]
          = Inr contexts'"
    by auto
  from collect_contexts_upt [OF this j] have mk: "make_context results' j = Inr (contexts' ! j)" .
  note facts = make_context_Inr [OF mk]
  from facts show "j < length (row0 (distances results'))" by simp
  from facts show "content (contexts' ! j) = row0 (documents results') ! j" by simp
  from facts show "relevance_score (contexts' ! j) = 1 - row0 (distances results') ! j" by simp
  assume "1 < row0 (distances results') ! j"
  with facts show "relevance_score (contexts' ! j) < 0" by simp
qed

theorem relevance_score_one_minus_distance_witness:
  "coll_query example_store (retrieve_request ''rbac'' 2) =
     Inr \<lparr>documents = Some [[''k8s rbac'', ''audit policy'']],
          metadatas = Some [[md_infrastructure, md_security]],
          distances = Some [[1 / 4, 3 / 2]]\<rparr>
   \<and> retrieve_context example_store ''rbac'' 2 =
     Inr [\<lparr>content = ''k8s rbac'', metadata = md_infrastructure, relevance_score = 3 / 4\<rparr>,
          \<lparr>content = ''audit policy'', metadata = md_security, relevance_score = - 1 / 2\<rparr>]
   \<and> coll_query example_store (category_request ''rbac'' ''security'' 1) =
     Inr \<lparr>documents = Some [[''audit policy'']], metadatas = Some [[md_security]],
          distances = Some [[3 / 2]]\<rparr>
   \<and> search_by_category example_store ''rbac'' ''security'' 1 =
     Inr [\<lparr>content = ''audit policy'', metadata = md_security, relevance_score = - 1 / 2\<rparr>]
   \<and> relevance_score
        ([\<lparr>content = ''k8s rbac'', metadata = md_infrastructure, relevance_score = 3 / 4\<rparr>,
          \<lparr>content = ''audit policy'', metadata = md_security, relevance_score = - 1 / 2\<rparr>] ! 1)
       = 1 - [1 / 4, 3 / 2 :: real] ! 1
   \<and> relevance_score
        ([\<lparr>content = ''k8s rbac'', metadata = md_infrastructure, relevance_score = 3 / 4\<rparr>,
          \<lparr>content = ''audit policy'', metadata = md_security, relevance_score = - 1 / 2\<rparr>] ! 1)
       < 0
   \<and> relevance_score
        ([\<lparr>content = ''audit policy'', metadata = md_security, relevance_score = - 1 / 2\<rparr>] ! 0)
       < 0"
proof -
  let ?results = "\<lparr>documents = Some [[''k8s rbac'', ''audit policy'']],
          metadatas = Some [[md_infrastructure, md_security]],
          distances = Some [[1 / 4, 3 / 2 :: real]]\<rparr>"
  let ?contexts = "[\<lparr>content = ''k8s rbac'', metadata = md_infrastructure, relevance_score = 3 / 4\<rparr>,
          \<lparr>content = ''audit policy'', metadata = md_security, relevance_score = - 1 / 2\<rparr>]"
  let ?results' = "\<lparr>documents = Some [[''audit policy'']], metadatas = Some [[md_security]],
          distances = Some [[3 / 2 :: real]]\<rparr>"
  let ?contexts' = "[\<lparr>content = ''audit policy'', metadata = md_security, relevance_score = - 1 / 2\<rparr>]"
  have far: "1 < row0 (distances ?results) ! 1" "1 < row0 (distances ?results') ! 0"
    by (simp_all add: row0_def)
  from relevance_score_one_minus_distance
         [of example_store "''rbac''" 2 ?results ?contexts 1, THEN conjunct1]
       example_query_all example_retrieve_all far(1)
  have first: "relevance_score (?contexts ! 1) = 1 - [1 / 4, 3 / 2 :: real] ! 1
               \<and> relevance_score (?contexts ! 1) < 0"
    by (simp add: row0_def)
  from relevance_score_one_minus_distance
         [of example_store "''rbac''" 1 _ _ _ "''security''" ?results' ?contexts' 0, THEN conjunct2]
       example_query_security example_search_security far(2)
  have second: "relevance_score (?contexts' ! 0) < 0"
    by (simp add: row0_def)
  from first second example_query_all example_retrieve_all example_query_security
    example_search_security
  show ?thesis by blast
qed

section \<open>Category-filtered retrieval\<close>

lemma search_by_category_length:
  assumes "search_by_category coll query category k = Inr contexts"
  shows "length contexts \<le> nat k"
proof (cases "coll_query coll (category_request query category k)")
  case (Inl e)
  with assms show ?thesis
    by (simp add: search_by_category_def try_except_def rbind_def)
next
  case (Inr results)
  from search_by_category_cases [OF Inr assms] show ?thesis
  proof
    assume "contexts = []"
    then show ?thesis by simp
  next
    assume "collect_contexts results [0..<nat (min k (int (length (row0 (documents results)))))]
              = Inr contexts"
    from collect_contexts_Inr [OF this] show ?thesis by simp
  qed
qed

text \<open>
  Claim C3. For every query, \<open>k\<close> and category, \<open>search_by_category\<close> asks the store
  for \<open>2 * k\<close> results under the filter \<open>category = category\<close>, and its answer depends
  on the store through that one request only. It returns at most \<open>k\<close> results, a
  prefix of what the store reported (nothing, or the first \<open>min k len\<close> entries), and
  when the store's answer holds only records of the requested category, as a filtered
  query does whatever other records the store holds, so does the returned list.
\<close>

theorem search_by_category_filtered:
  "n_results (category_request query category k) = 2 * k
   \<and> where_filter (category_request query category k) = Some [(''category'', MStr category)]
   \<and> query_texts (category_request query category k) = [query]
   \<and> (coll_query coll (category_request query category k)
        = coll_query other (category_request query category k)
      \<longrightarrow> search_by_category coll query category k = search_by_category other query category k)
   \<and> (search_by_category coll query category k = Inr contexts \<longrightarrow> length contexts \<le> nat k)
   \<and> (coll_query coll (category_request query category k) = Inr results
      \<and> search_by_category coll query category k = Inr contexts
      \<longrightarrow> (contexts = []
           \<or> length contexts = min (nat k) (length (row0 (documents results))))
        \<and> (\<forall>i<length contexts.
              content (contexts ! i) = row0 (documents results) ! i
              \<and> metadata (contexts ! i) = row0 (metadatas results) ! i)
        \<and> (list_all (\<lambda>m. m ''category'' = Some (MStr category)) (row0 (metadatas results))
           \<longrightarrow> list_all (\<lambda>c. metadata c ''category'' = Some (MStr category)) contexts))"
proof -
  have request: "n_results (category_request query category k) = 2 * k"
    "where_filter (category_request query category k) = Some [(''category'', MStr category)]"
    "query_texts (category_request query category k) = [query]"
    by (simp_all add: category_request_def)
  have only: "coll_query coll (category_request query category k)
        = coll_query other (category_request query category k)
      \<longrightarrow> search_by_category coll query category k = search_by_category other query category k"
    by (simp add: search_by_category_def)
  have bound: "search_by_category coll query category k = Inr contexts \<longrightarrow> length contexts \<le> nat k"
    by (simp add: search_by_category_length)
  have answer: "(contexts = []
           \<or> length contexts = min (nat k) (length (row0 (documents results))))
        \<and> (\<forall>i<length contexts.
              content (contexts ! i) = row0 (documents results) ! i
              \<and> metadata (contexts ! i) = row0 (metadatas results) ! i)
        \<and> (list_all (\<lambda>m. m ''category'' = Some (MStr category)) (row0 (metadatas results))
           \<longrightarrow> list_all (\<lambda>c. metadata c ''category'' = Some (MStr category)) contexts)"
    if q: "coll_query coll (category_request query category k) = Inr results"
      and r: "search_by_category coll query category k = Inr contexts"
  proof -
    have made: "make_context results i = Inr (contexts ! i)" if i: "i < length contexts" for i
    proof -
      from search_by_category_cases [OF q r] i
      have "collect_contexts results
              [0..<nat (min k (int (length (row0 (documents results)))))] = Inr contexts"
        by auto
      from collect_contexts_upt [OF this i] show ?thesis .
    qed
    from search_by_category_cases [OF q r]
    have len: "contexts = [] \<or> length contexts = min (nat k) (length (row0 (documents results)))"
    proof
      assume "contexts = []"
      then show ?thesis by simp
    next
      assume "collect_contexts results
                [0..<nat (min k (int (length (row0 (documents results)))))] = Inr contexts"
      from collect_contexts_Inr [OF this]
      have "length contexts = nat (min k (int (length (row0 (documents results)))))" by simp
      then show ?thesis by (simp add: min_def split: if_splits)
    qed
    have same: "\<forall>i<length contexts.
              content (contexts ! i) = row0 (documents results) ! i
              \<and> metadata (contexts ! i) = row0 (metadatas results) ! i"
      using make_context_Inr [OF made] by simp
    have cat: "list_all (\<lambda>c. metadata c ''category'' = Some (MStr category)) contexts"
      if all: "list_all (\<lambda>m. m ''category'' = Some (MStr category)) (row0 (metadatas results))"
      unfolding list_all_length
    proof (intro allI impI)
      fix i
      assume i: "i < length contexts"
      from make_context_Inr [OF made [OF i]]
      have "i < length (row0 (metadatas results))"
        and "metadata (contexts ! i) = row0 (metadatas results) ! i"
        by simp_all
      with all show "metadata (contexts ! i) ''category'' = Some (MStr category)"
        by (simp add: list_all_length)
    qed
    from len same cat show ?thesis by blast
  qed
  from request only bound answer show ?thesis by blast
qed

text \<open>
  In the example collection the record nearest to the query is of category
  \<open>infrastructure\<close> (distance 1/4); the search in category \<open>security\<close> returns the
  farther \<open>security\<close> record only (distance 3/2).
\<close>

theorem search_by_category_filtered_witness:
  "coll_query example_store (category_request ''rbac'' ''security'' 1)
     = coll_query example_store (category_request ''rbac'' ''security'' 1)
   \<and> coll_query example_store (category_request ''rbac'' ''security'' 1) =
       Inr \<lparr>documents = Some [[''audit policy'']], metadatas = Some [[md_security]],
            distances = Some [[3 / 2]]\<rparr>
   \<and> search_by_category example_store ''rbac'' ''security'' 1 =
       Inr [\<lparr>content = ''audit policy'', metadata = md_security, relevance_score = - 1 / 2\<rparr>]
   \<and> list_all (\<lambda>m. m ''category'' = Some (MStr ''security'')) [md_security]
   \<and> example_distance ''rbac'' (sv_text (example_records ! 0))
       < example_distance ''rbac'' (sv_text (example_records ! 1))
   \<and> sv_metadata (example_records ! 0) ''category'' = Some (MStr ''infrastructure'')
   \<and> length [\<lparr>content = ''audit policy'', metadata = md_security, relevance_score = - 1 / 2\<rparr>]
       \<le> nat 1
   \<and> list_all (\<lambda>c. metadata c ''category'' = Some (MStr ''security''))
       [\<lparr>content = ''audit policy'', metadata = md_security, relevance_score = - 1 / 2\<rparr>]"
proof -
  let ?results = "\<lparr>documents = Some [[''audit policy'']], metadatas = Some [[md_security]],
            distances = Some [[3 / 2 :: real]]\<rparr>"
  let ?contexts = "[\<lparr>content = ''audit policy'', metadata = md_security, relevance_score = - 1 / 2\<rparr>]"
  have filtered: "list_all (\<lambda>m. m ''category'' = Some (MStr ''security'')) [md_security]"
    by (simp add: md_security_def)
  then have filtered':
    "list_all (\<lambda>m. m ''category'' = Some (MStr ''security'')) (row0 (metadatas ?results))"
    by (simp add: row0_def)
  have nearer: "example_distance ''rbac'' (sv_text (example_records ! 0))
       < example_distance ''rbac'' (sv_text (example_records ! 1))"
    by (simp add: example_distance_def example_records_def)
  have other: "sv_metadata (example_records ! 0) ''category'' = Some (MStr ''infrastructure'')"
    by (simp add: example_records_def md_infrastructure_def)
  from search_by_category_filtered
         [of "''rbac''" "''security''" 1 example_store example_store ?contexts ?results]
       example_query_security example_search_security filtered'
  have "length ?contexts \<le> nat 1
        \<and> list_all (\<lambda>c. metadata c ''category'' = Some (MStr ''security'')) ?contexts"
    by blast
  with filtered nearer other example_query_security example_search_security
  show ?thesis by blast
qed

section \<open>Retrieval does not raise\<close>

text \<open>
  Claim C6, as stated, asks for an empty result whenever the query is the empty string.
  \<open>retrieve_context\<close> passes the empty string to the store like any other text: on the
  example collection it returns the nearest record.
\<close>

theorem retrieve_context_empty_query_counterexample:
  "retrieve_context example_store '''' 1 =
     Inr [\<lparr>content = ''k8s rbac'', metadata = md_infrastructure, relevance_score = 3 / 4\<rparr>]
   \<and> retrieve_context example_store '''' 1 \<noteq> Inr []"
  by (simp add: retrieve_context_def try_except_def rbind_def has_documents_def row0_def
      make_context_def py_first_def py_index_def upt_rec
      example_store_def list_store_def retrieve_request_def nearest_def
      example_records_def example_distance_def matches_where_def)

text \<open>
  Claim C6, amended. For every query string (the empty string included) and every \<open>k\<close>,
  \<open>retrieve_context\<close> returns a list and raises nothing. The list is empty when the
  store's query raises, when the store answers with no documents (no match), and on
  an empty store. No case is made of the empty query string: its result is whatever
  the store's answer gives.
\<close>

theorem retrieve_context_never_raises:
  "(\<exists>contexts. retrieve_context coll query k = Inr contexts)
   \<and> (coll_query coll (retrieve_request query k) = Inl e
      \<longrightarrow> retrieve_context coll query k = Inr [])
   \<and> (coll_query coll (retrieve_request query k) = Inr results \<and> \<not> has_documents results
      \<longrightarrow> retrieve_context coll query k = Inr [])
   \<and> retrieve_context (list_store distance []) query k = Inr []"
proof -
  have failure: "coll_query coll (retrieve_request query k) = Inl e
      \<longrightarrow> retrieve_context coll query k = Inr []"
    by (simp add: retrieve_context_def try_except_def rbind_def)
  have no_documents: "coll_query coll (retrieve_request query k) = Inr results \<and> \<not> has_documents results
      \<longrightarrow> retrieve_context coll query k = Inr []"
    by (simp add: retrieve_context_def try_except_def rbind_def)
  from retrieve_context_returns failure no_documents retrieve_context_empty_store
  show ?thesis by blast
qed

theorem retrieve_context_never_raises_witness:
  "coll_query example_store (retrieve_request ''rbac'' 0)
     = Inl (StoreError ''n_results must be positive'')
   \<and> retrieve_context example_store ''rbac'' 0 = Inr []
   \<and> coll_query (list_store example_distance []) (retrieve_request '''' 1)
     = Inr \<lparr>documents = Some [[]], metadatas = Some [[]], distances = Some [[]]\<rparr>
   \<and> \<not> has_documents \<lparr>documents = Some [[]], metadatas = Some [[]], distances = Some [[]]\<rparr>
   \<and> retrieve_context (list_store example_distance []) '''' 1 = Inr []"
proof -
  have raised: "coll_query example_store (retrieve_request ''rbac'' 0)
     = Inl (StoreError ''n_results must be positive'')"
    by (simp add: example_store_def list_store_def retrieve_request_def)
  have answered: "coll_query (list_store example_distance []) (retrieve_request '''' 1)
     = Inr \<lparr>documents = Some [[]], metadatas = Some [[]], distances = Some [[]]\<rparr>"
    by (simp add: list_store_def retrieve_request_def nearest_def)
  have none: "\<not> has_documents \<lparr>documents = Some [[]], metadatas = Some [[]], distances = Some [[]]\<rparr>"
    by (simp add: has_documents_def)
  from retrieve_context_never_raises
         [of example_store "''rbac''" 0 "StoreError ''n_results must be positive''"]
       raised
  have first: "retrieve_context example_store ''rbac'' 0 = Inr []" by blast
  from retrieve_context_never_raises
         [of "list_store example_distance []" "''''" 1 _
             "\<lparr>documents = Some [[]], metadatas = Some [[]], distances = Some [[]]\<rparr>"]
       answered none
  have second: "retrieve_context (list_store example_distance []) '''' 1 = Inr []" by blast
  from raised answered none first second show ?thesis by blast
qed

section \<open>Facts about the responder\<close>

lemma py_in_trans: "py_in a b \<Longrightarrow> py_in b c \<Longrightarrow> py_in a c"
  unfolding py_in_sublist by (rule sublist_order.order_trans)

lemma strip_trailing:
  assumes "s \<noteq> []" and "\<not> is_space (hd s)" and "\<not> is_space (last s)"
    and "\<forall>x\<in>set ws. is_space x"
  shows "strip (s @ ws) = s"
proof -
  from assms(1,2) have front: "dropWhile is_space (s @ ws) = s @ ws"
    by (simp add: dropWhile_eq_self_iff)
  have "dropWhile is_space (rev ws @ rev s) = dropWhile is_space (rev s)"
    by (rule dropWhile_append2) (use assms(4) in simp)
  also from assms(1,3) have "\<dots> = rev s"
    by (simp add: dropWhile_eq_self_iff hd_rev)
  finally show ?thesis
    by (simp add: strip_def front)
qed

lemma context_block_contains:
  assumes "context_block i c = Inr block"
  shows "py_in (content c) block"
proof -
  from assms obtain pre where "block = pre @ content c @ (backslash_n @ backslash_n)"
    unfolding context_block_def rbind_def Let_def
    by (auto split: sum.splits)
  then show ?thesis
    using py_in_append [of "content c" "content c" pre "backslash_n @ backslash_n"]
    by (simp add: py_in_sublist)
qed

lemma context_loop_contains:
  "context_loop i cs acc = Inr s \<Longrightarrow>
     (\<exists>rest. s = acc @ rest) \<and> (\<forall>c\<in>set cs. py_in (content c) s)"
proof (induction cs arbitrary: i acc)
  case Nil
  then show ?case by simp
next
  case (Cons c cs)
  from Cons.prems obtain block where block: "context_block i c = Inr block"
    and rest: "context_loop (Suc i) cs (acc @ block) = Inr s"
    by (auto split: sum.splits)
  from Cons.IH [OF rest] obtain r where s: "s = (acc @ block) @ r"
    and others: "\<forall>c\<in>set cs. py_in (content c) s"
    by blast
  from s have "py_in block s"
    using py_in_append [of block block acc r] by (simp add: py_in_sublist)
  with context_block_contains [OF block] have "py_in (content c) s"
    by (rule py_in_trans)
  with s others show ?case by auto
qed

lemma prepare_context_string_contains:
  assumes "prepare_context_string contexts = Inr context_string" and "c \<in> set contexts"
  shows "py_in (content c) context_string"
proof -
  from assms have "context_loop 1 contexts
      (''RELEVANT KNOWLEDGE FROM MOSES'S EXPERTISE:'' @ backslash_n @ backslash_n)
      = Inr context_string"
    by (auto simp: prepare_context_string_def split: if_splits)
  from context_loop_contains [OF this] assms(2) show ?thesis by blast
qed

text \<open>The answer when the fallback test fails: the template without its final newline.\<close>

lemma strip_structured_response:
  "strip (structured_response query context) =
     ''Based on Moses Omondi's expertise, here's what I can tell you about your question: ''
     @ [CHR 0x22] @ query @ [CHR 0x22] @ newline
     @ newline
     @ ''**Key Information:**'' @ newline
     @ extract_key_points context @ newline
     @ newline
     @ ''**Practical Recommendations:**'' @ newline
     @ generate_recommendations query context @ newline
     @ newline
     @ ''**Security Considerations:**'' @ newline
     @ extract_security_points context @ newline
     @ newline
     @ ''*This response is based on Moses Omondi's documented experience in DevSecOps, ''
     @ ''AI Engineering, and Cloud Architecture.*''"
    (is "_ = ?body")
proof -
  have shape: "structured_response query context = ?body @ newline"
    unfolding structured_response_def by (simp only: append_assoc)
  have "strip (?body @ newline) = ?body"
  proof (rule strip_trailing)
    show "?body \<noteq> []" by simp
    show "\<not> is_space (hd ?body)" by (simp add: is_space_def)
    show "\<not> is_space (last ?body)" by (simp add: is_space_def)
    show "\<forall>x\<in>set newline. is_space x" by (simp add: newline_def is_space_def)
  qed
  with shape show ?thesis by (simp only:)
qed

lemma structured_response_not_canned:
  "strip (structured_response query context) \<noteq> no_information_answer"
proof -
  have "hd (strip (structured_response query context)) = CHR ''B''"
    unfolding strip_structured_response by simp
  moreover have "hd no_information_answer = CHR ''I''"
    by (simp add: no_information_answer_def)
  ultimately show ?thesis by auto
qed

lemma recommendations_section:
  "py_in (''**Practical Recommendations:**'' @ newline
          @ generate_recommendations query context @ newline)
     (strip (structured_response query context))"
proof -
  have "strip (structured_response query context) =
     (''Based on Moses Omondi's expertise, here's what I can tell you about your question: ''
      @ [CHR 0x22] @ query @ [CHR 0x22] @ newline
      @ newline
      @ ''**Key Information:**'' @ newline
      @ extract_key_points context @ newline
      @ newline)
     @ (''**Practical Recommendations:**'' @ newline
        @ generate_recommendations query context @ newline)
     @ (newline
        @ ''**Security Considerations:**'' @ newline
        @ extract_security_points context @ newline
        @ newline
        @ ''*This response is based on Moses Omondi's documented experience in DevSecOps, ''
        @ ''AI Engineering, and Cloud Architecture.*'')"
    unfolding strip_structured_response by (simp only: append_assoc)
  then show ?thesis
    by (simp only: py_in_sublist sublist_appendI)
qed

lemma fallback_test: "py_in ''No relevant context'' no_context_string"
  by code_simp

section \<open>Recommendations\<close>

text \<open>
  Claim C5, as stated, fails for a question that also names Kubernetes: the Kubernetes
  branch is tested first.
\<close>

theorem pipeline_with_kubernetes_counterexample:
  "py_in ''pipeline'' (lower ''Kubernetes pipeline'')
   \<and> generate_recommendations ''Kubernetes pipeline'' ''SAST in the pipeline''
       = kubernetes_recommendations
   \<and> generate_recommendations ''Kubernetes pipeline'' ''SAST in the pipeline''
       \<noteq> cicd_recommendations"
  by code_simp

text \<open>
  Claim C5, amended. For every question whose lowercased text contains \<open>pipeline\<close> and
  neither \<open>kubernetes\<close> nor \<open>k8s\<close>, the recommendations are the CI/CD list whatever the
  context is, and the structured answer carries that list as its recommendations
  section. The choice never looks at the context. A question whose lowercased text
  contains \<open>kubernetes\<close> or \<open>k8s\<close> gets the Kubernetes list.
\<close>

theorem pipeline_selects_cicd:
  "(py_in ''pipeline'' (lower question) \<and> \<not> py_in ''kubernetes'' (lower question)
      \<and> \<not> py_in ''k8s'' (lower question)
    \<longrightarrow> generate_recommendations question context = cicd_recommendations
        \<and> (\<not> py_in ''No relevant context'' context
           \<longrightarrow> py_in (''**Practical Recommendations:**'' @ newline @ cicd_recommendations @ newline)
                 (generate_response question context)))
   \<and> (py_in ''kubernetes'' (lower question) \<or> py_in ''k8s'' (lower question)
      \<longrightarrow> generate_recommendations question context = kubernetes_recommendations)
   \<and> generate_recommendations question context = generate_recommendations question other_context"
proof -
  have cicd: "generate_recommendations question context = cicd_recommendations"
    if "py_in ''pipeline'' (lower question)" "\<not> py_in ''kubernetes'' (lower question)"
      "\<not> py_in ''k8s'' (lower question)"
    using that by (simp add: generate_recommendations_def)
  have in_answer: "py_in (''**Practical Recommendations:**'' @ newline @ cicd_recommendations @ newline)
                 (generate_response question context)"
    if "generate_recommendations question context = cicd_recommendations"
      and "\<not> py_in ''No relevant context'' context"
    using that recommendations_section [of question "context"]
    by (simp only: generate_response_def if_False)
  have kubernetes: "generate_recommendations question context = kubernetes_recommendations"
    if "py_in ''kubernetes'' (lower question) \<or> py_in ''k8s'' (lower question)"
    using that by (simp add: generate_recommendations_def)
  have independent:
    "generate_recommendations question context = generate_recommendations question other_context"
    by (simp add: generate_recommendations_def)
  from cicd in_answer kubernetes independent show ?thesis by blast
qed

theorem pipeline_selects_cicd_witness:
  "py_in ''pipeline'' (lower ''Is my Pipeline safe?'')
   \<and> \<not> py_in ''kubernetes'' (lower ''Is my Pipeline safe?'')
   \<and> \<not> py_in ''k8s'' (lower ''Is my Pipeline safe?'')
   \<and> \<not> py_in ''No relevant context'' ''Deploy to AWS''
   \<and> generate_recommendations ''Is my Pipeline safe?'' ''Deploy to AWS'' = cicd_recommendations
   \<and> py_in (''**Practical Recommendations:**'' @ newline @ cicd_recommendations @ newline)
        (generate_response ''Is my Pipeline safe?'' ''Deploy to AWS'')
   \<and> py_in ''k8s'' (lower ''K8s pipeline'')
   \<and> generate_recommendations ''K8s pipeline'' ''Deploy to AWS'' = kubernetes_recommendations"
proof -
  have hyps: "py_in ''pipeline'' (lower ''Is my Pipeline safe?'')"
    "\<not> py_in ''kubernetes'' (lower ''Is my Pipeline safe?'')"
    "\<not> py_in ''k8s'' (lower ''Is my Pipeline safe?'')"
    "\<not> py_in ''No relevant context'' ''Deploy to AWS''"
    "py_in ''k8s'' (lower ''K8s pipeline'')"
    by code_simp+
  from pipeline_selects_cicd [of "''Is my Pipeline safe?''" "''Deploy to AWS''"] hyps(1-4)
  have first: "generate_recommendations ''Is my Pipeline safe?'' ''Deploy to AWS''
                 = cicd_recommendations
     \<and> py_in (''**Practical Recommendations:**'' @ newline @ cicd_recommendations @ newline)
        (generate_response ''Is my Pipeline safe?'' ''Deploy to AWS'')"
    by blast
  from pipeline_selects_cicd [of "''K8s pipeline''" "''Deploy to AWS''"] hyps(5)
  have second: "generate_recommendations ''K8s pipeline'' ''Deploy to AWS''
                  = kubernetes_recommendations"
    by blast
  from hyps first second show ?thesis by blast
qed

section \<open>The fallback answer\<close>

text \<open>
  Claim C7. For every question, with an empty contexts list the context string is the
  no-context sentence and the answer is the canned no-information text; that text is
  not a structured three-section answer for any question and context. A query against
  an empty collection ends this way, with no sources used.
\<close>

theorem empty_contexts_canned_answer:
  "prepare_context_string [] = Inr no_context_string
   \<and> generate_response question no_context_string = no_information_answer
   \<and> answer_from question [] = Inr no_information_answer
   \<and> no_information_answer \<noteq> strip (structured_response any_question any_context)
   \<and> rag_query (list_store distance []) question k
       = Inr \<lparr>answer = no_information_answer, answer_contexts = [], sources_used = 0,
              answer_query = question\<rparr>"
proof -
  have prepared: "prepare_context_string [] = Inr no_context_string"
    by (simp add: prepare_context_string_def)
  have generated: "generate_response question no_context_string = no_information_answer"
    using fallback_test by (simp only: generate_response_def if_True)
  from prepared generated
  have answered: "answer_from question [] = Inr no_information_answer"
    by (simp add: answer_from_def rbind_def)
  from answered
  have queried: "rag_query (list_store distance []) question k
       = Inr \<lparr>answer = no_information_answer, answer_contexts = [], sources_used = 0,
              answer_query = question\<rparr>"
    by (simp add: rag_query_def rbind_def retrieve_context_empty_store)
  from structured_response_not_canned [of any_question any_context]
  have "no_information_answer \<noteq> strip (structured_response any_question any_context)"
    by (rule not_sym)
  with prepared generated answered queried show ?thesis by blast
qed

text \<open>
  Claim C9. The fallback branch of \<open>generate_response\<close> is taken exactly when the
  context string contains the text \<open>No relevant context\<close>. So for every contexts list
  with a context whose content contains that text (a non-empty list), whenever the
  context string is built the answer is the canned no-information text.
\<close>

theorem fallback_on_context_text:
  "(generate_response question context_string = no_information_answer
      \<longleftrightarrow> py_in ''No relevant context'' context_string)
   \<and> (prepare_context_string contexts = Inr context_string \<and> c \<in> set contexts
        \<and> py_in ''No relevant context'' (content c)
      \<longrightarrow> contexts \<noteq> [] \<and> answer_from question contexts = Inr no_information_answer)"
proof -
  have test: "generate_response question context_string = no_information_answer
      \<longleftrightarrow> py_in ''No relevant context'' context_string"
  proof (cases "py_in ''No relevant context'' context_string")
    case True
    then show ?thesis by (simp add: generate_response_def)
  next
    case False
    with structured_response_not_canned [of question context_string]
    show ?thesis by (simp add: generate_response_def)
  qed
  have fallback: "contexts \<noteq> [] \<and> answer_from question contexts = Inr no_information_answer"
    if p: "prepare_context_string contexts = Inr context_string" and c: "c \<in> set contexts"
      and t: "py_in ''No relevant context'' (content c)"
  proof -
    from t prepare_context_string_contains [OF p c]
    have "py_in ''No relevant context'' context_string" by (rule py_in_trans)
    with test have "generate_response question context_string = no_information_answer"
      by simp
    with p c show ?thesis
      by (auto simp: answer_from_def rbind_def)
  qed
  from test fallback show ?thesis by blast
qed

theorem fallback_on_context_text_witness:
  "prepare_context_string
     [\<lparr>content = ''No relevant context switch cost'', metadata = md_security,
       relevance_score = 1 / 2\<rparr>]
     = Inr (''RELEVANT KNOWLEDGE FROM MOSES'S EXPERTISE:'' @ backslash_n @ backslash_n
            @ ''[Source 1 - Security] (audit.md):'' @ backslash_n
            @ ''No relevant context switch cost'' @ backslash_n @ backslash_n)
   \<and> py_in ''No relevant context'' ''No relevant context switch cost''
   \<and> [\<lparr>content = ''No relevant context switch cost'', metadata = md_security,
        relevance_score = 1 / 2\<rparr>] \<noteq> []
   \<and> answer_from ''How costly is a context switch?''
        [\<lparr>content = ''No relevant context switch cost'', metadata = md_security,
          relevance_score = 1 / 2\<rparr>]
       = Inr no_information_answer"
proof -
  let ?c = "\<lparr>content = ''No relevant context switch cost'', metadata = md_security,
       relevance_score = 1 / 2\<rparr>"
  let ?s = "''RELEVANT KNOWLEDGE FROM MOSES'S EXPERTISE:'' @ backslash_n @ backslash_n
            @ ''[Source 1 - Security] (audit.md):'' @ backslash_n
            @ ''No relevant context switch cost'' @ backslash_n @ backslash_n"
  have prepared: "prepare_context_string [?c] = Inr ?s"
    by code_simp
  have literal: "py_in ''No relevant context'' ''No relevant context switch cost''"
    by code_simp
  from fallback_on_context_text [of "''How costly is a context switch?''" ?s "[?c]" ?c]
       prepared literal
  have "[?c] \<noteq> [] \<and> answer_from ''How costly is a context switch?'' [?c]
          = Inr no_information_answer"
    by simp
  with prepared literal show ?thesis by blast
qed

section \<open>Knowledge base information\<close>

lemma add_categories_set:
  "set (add_categories ms cs) = set cs \<union> {v. \<exists>m\<in>set ms. m ''category'' = Some v}"
  by (induction ms arbitrary: cs) (auto split: option.splits)

lemma add_categories_distinct: "distinct cs \<Longrightarrow> distinct (add_categories ms cs)"
  by (induction ms arbitrary: cs) (auto split: option.splits)

lemma strings_of_Some: "strings_of vs = Some ss \<Longrightarrow> vs = map MStr ss"
  by (induction vs arbitrary: ss rule: strings_of.induct) auto

lemma ints_of_Some: "ints_of vs = Some is \<Longrightarrow> vs = map MInt is"
  by (induction vs arbitrary: "is" rule: ints_of.induct) auto

lemma strings_of_map: "strings_of (map MStr ss) = Some ss"
  by (induction ss) auto

lemma sorted_wrt_MStr: "sorted_wrt mvalue_le (map MStr ss) = sorted ss"
  by (simp add: sorted_wrt_map)

lemma sorted_wrt_MInt: "sorted_wrt mvalue_le (map MInt is) = sorted is"
  by (simp add: sorted_wrt_map)

lemma py_sorted_Inr:
  assumes "py_sorted vs = Inr ws"
  shows "set ws = set vs \<and> (distinct vs \<longrightarrow> distinct ws) \<and> sorted_wrt mvalue_le ws"
proof (cases "strings_of vs")
  case (Some ss)
  with assms have ws: "ws = map MStr (sort ss)" by (simp add: py_sorted_def)
  from strings_of_Some [OF Some] have vs: "vs = map MStr ss" .
  show ?thesis
    unfolding ws vs by (simp add: sorted_wrt_MStr distinct_map)
next
  case None
  with assms obtain "is" where ints: "ints_of vs = Some is" and ws: "ws = map MInt (sort is)"
    by (auto simp: py_sorted_def split: option.splits)
  from ints_of_Some [OF ints] have vs: "vs = map MInt is" .
  show ?thesis
    unfolding ws vs by (simp add: sorted_wrt_MInt distinct_map)
qed

lemma py_sorted_strings:
  assumes "\<forall>v\<in>set vs. \<exists>s. v = MStr s"
  shows "\<exists>ws. py_sorted vs = Inr ws"
proof -
  from assms have "\<exists>ss. vs = map MStr ss"
  proof (induction vs)
    case Nil
    then show ?case by simp
  next
    case (Cons v vs)
    then obtain s ss where "v = MStr s" "vs = map MStr ss" by auto
    then have "v # vs = map MStr (s # ss)" by simp
    then show ?case by (rule exI [of _ "s # ss"])
  qed
  then obtain ss where "vs = map MStr ss" ..
  then show ?thesis by (simp add: py_sorted_def strings_of_map)
qed

lemma get_knowledge_base_info_cases:
  assumes "coll_count coll = Inr n"
    and "coll_get coll \<lparr>get_limit = 100, get_include = [''metadatas'']\<rparr>
           = Inr \<lparr>got_metadatas = Some ms\<rparr>"
  shows "(\<exists>ws. py_sorted (add_categories ms []) = Inr ws
            \<and> get_knowledge_base_info coll
                = \<lparr>total_documents = n, categories = ws, status = ''active'', error = None\<rparr>)
         \<or> (\<exists>e. py_sorted (add_categories ms []) = Inl e
            \<and> get_knowledge_base_info coll
                = \<lparr>total_documents = 0, categories = [], status = ''error'', error = Some e\<rparr>)"
proof -
  have sample: "(case Some ms of None \<Rightarrow> [] | Some [] \<Rightarrow> []
                 | Some (m # ms') \<Rightarrow> add_categories (m # ms') []) = add_categories ms []"
    by (cases ms) simp_all
  show ?thesis
  proof (cases "py_sorted (add_categories ms [])")
    case (Inl e)
    with assms sample show ?thesis
      by (simp add: get_knowledge_base_info_def rbind_def)
  next
    case (Inr ws)
    with assms sample show ?thesis
      by (simp add: get_knowledge_base_info_def rbind_def)
  qed
qed

text \<open>
  Claim C10. Let the store hold the records \<open>recs\<close>, more than 100 of them, let its
  count be their number and let its \<open>get\<close> with limit 100 answer the metadata of the
  first 100. Then a category value \<open>c\<close> that no record among the first 100 carries is
  absent from the returned categories, whichever later records carry it; the returned
  list has no duplicates, is sorted ascending, and holds only category values of the
  first 100 records. When those values are strings, as the ingestion of this program
  writes them, the status is \<open>active\<close>, the list holds exactly those values, and
  \<open>total_documents\<close> is the number of all records.
\<close>

theorem knowledge_base_info_sample:
  assumes count: "coll_count coll = Inr (int (length recs))"
    and got: "coll_get coll \<lparr>get_limit = 100, get_include = [''metadatas'']\<rparr>
                = Inr \<lparr>got_metadatas = Some (map sv_metadata (take 100 recs))\<rparr>"
    and more: "100 < length recs"
    and beyond: "\<forall>r\<in>set (take 100 recs). sv_metadata r ''category'' \<noteq> Some c"
  shows "c \<notin> set (categories (get_knowledge_base_info coll))
     \<and> distinct (categories (get_knowledge_base_info coll))
     \<and> sorted_wrt mvalue_le (categories (get_knowledge_base_info coll))
     \<and> set (categories (get_knowledge_base_info coll))
         \<subseteq> {v. \<exists>r\<in>set (take 100 recs). sv_metadata r ''category'' = Some v}
     \<and> ((\<forall>r\<in>set (take 100 recs). \<forall>v. sv_metadata r ''category'' = Some v \<longrightarrow> (\<exists>s. v = MStr s))
        \<longrightarrow> status (get_knowledge_base_info coll) = ''active''
          \<and> total_documents (get_knowledge_base_info coll) = int (length recs)
          \<and> set (categories (get_knowledge_base_info coll))
              = {v. \<exists>r\<in>set (take 100 recs). sv_metadata r ''category'' = Some v})"
proof -
  let ?ms = "map sv_metadata (take 100 recs)"
  let ?sampled = "{v. \<exists>r\<in>set (take 100 recs). sv_metadata r ''category'' = Some v}"
  let ?info = "get_knowledge_base_info coll"
  have sampled: "set (add_categories ?ms []) = ?sampled"
    by (auto simp: add_categories_set)
  have unique: "distinct (add_categories ?ms [])"
    by (simp add: add_categories_distinct)
  from beyond have absent: "c \<notin> ?sampled" by auto
  from get_knowledge_base_info_cases [OF count got]
  have general: "c \<notin> set (categories ?info) \<and> distinct (categories ?info)
     \<and> sorted_wrt mvalue_le (categories ?info) \<and> set (categories ?info) \<subseteq> ?sampled"
  proof (elim disjE exE conjE)
    fix ws
    assume s: "py_sorted (add_categories ?ms []) = Inr ws"
      and i: "?info = \<lparr>total_documents = int (length recs), categories = ws,
                        status = ''active'', error = None\<rparr>"
    from py_sorted_Inr [OF s] sampled unique absent i show ?thesis by simp
  next
    fix e
    assume "?info = \<lparr>total_documents = 0, categories = [], status = ''error'', error = Some e\<rparr>"
    then show ?thesis by simp
  qed
  have strings: "status ?info = ''active'' \<and> total_documents ?info = int (length recs)
      \<and> set (categories ?info) = ?sampled"
    if all: "\<forall>r\<in>set (take 100 recs). \<forall>v. sv_metadata r ''category'' = Some v \<longrightarrow> (\<exists>s. v = MStr s)"
  proof -
    from all sampled have "\<forall>v\<in>set (add_categories ?ms []). \<exists>s. v = MStr s" by auto
    from py_sorted_strings [OF this] obtain ws
      where s: "py_sorted (add_categories ?ms []) = Inr ws" ..
    with get_knowledge_base_info_cases [OF count got]
    have "?info = \<lparr>total_documents = int (length recs), categories = ws,
                     status = ''active'', error = None\<rparr>"
      by auto
    with py_sorted_Inr [OF s] sampled show ?thesis by simp
  qed
  from general strings show ?thesis by blast
qed

theorem knowledge_base_info_sample_witness:
  "coll_count large_store = Inr (int (length large_records))
   \<and> coll_get large_store \<lparr>get_limit = 100, get_include = [''metadatas'']\<rparr>
       = Inr \<lparr>got_metadatas = Some (map sv_metadata (take 100 large_records))\<rparr>
   \<and> 100 < length large_records
   \<and> list_all (\<lambda>r. sv_metadata r ''category'' \<noteq> Some (MStr ''infrastructure''))
        (take 100 large_records)
   \<and> sv_metadata (large_records ! 100) ''category'' = Some (MStr ''infrastructure'')
   \<and> MStr ''infrastructure'' \<notin> set (categories (get_knowledge_base_info large_store))
   \<and> distinct (categories (get_knowledge_base_info large_store))
   \<and> sorted_wrt mvalue_le (categories (get_knowledge_base_info large_store))
   \<and> status (get_knowledge_base_info large_store) = ''active''
   \<and> total_documents (get_knowledge_base_info large_store) = 101
   \<and> set (categories (get_knowledge_base_info large_store)) = {MStr ''security''}"
proof -
  let ?info = "get_knowledge_base_info large_store"
  have first: "take 100 large_records =
     map (\<lambda>i. \<lparr>sv_id = doc_id i, sv_text = ''audit policy'', sv_metadata = md_security\<rparr>) [0..<100]"
    by (simp add: large_records_def)
  have len: "length large_records = 101"
    by (simp add: large_records_def)
  have count: "coll_count large_store = Inr (int (length large_records))"
    by (simp add: large_store_def list_store_def)
  have got: "coll_get large_store \<lparr>get_limit = 100, get_include = [''metadatas'']\<rparr>
       = Inr \<lparr>got_metadatas = Some (map sv_metadata (take 100 large_records))\<rparr>"
    by (simp add: large_store_def list_store_def)
  have more: "100 < length large_records"
    by (simp add: len)
  have beyond: "\<forall>r\<in>set (take 100 large_records).
                  sv_metadata r ''category'' \<noteq> Some (MStr ''infrastructure'')"
    unfolding first by (auto simp: md_security_def)
  have late: "sv_metadata (large_records ! 100) ''category'' = Some (MStr ''infrastructure'')"
    by (simp add: large_records_def nth_append md_infrastructure_def)
  have strings: "\<forall>r\<in>set (take 100 large_records).
                   \<forall>v. sv_metadata r ''category'' = Some v \<longrightarrow> (\<exists>s. v = MStr s)"
    unfolding first by (auto simp: md_security_def)
  have sampled: "{v. \<exists>r\<in>set (take 100 large_records). sv_metadata r ''category'' = Some v}
                  = {MStr ''security''}"
    unfolding first by (auto simp: md_security_def intro: exI [of _ "0::nat"])
  from knowledge_base_info_sample [OF count got more beyond] strings
  have "MStr ''infrastructure'' \<notin> set (categories ?info)
     \<and> distinct (categories ?info)
     \<and> sorted_wrt mvalue_le (categories ?info)
     \<and> status ?info = ''active''
     \<and> total_documents ?info = int (length large_records)
     \<and> set (categories ?info)
         = {v. \<exists>r\<in>set (take 100 large_records). sv_metadata r ''category'' = Some v}"
    by blast
  with count got more beyond late show ?thesis
    by (simp add: len sampled list_all_iff)
qed

section \<open>Chunk identifiers\<close>

lemma digit_char_inj: "a < 10 \<Longrightarrow> b < 10 \<Longrightarrow> digit_char a = digit_char b \<Longrightarrow> a = b"
proof -
  assume a: "a < 10" and b: "b < 10" and eq: "digit_char a = digit_char b"
  from eq have "(of_char (digit_char a) :: nat) = of_char (digit_char b)" by simp
  then have "(48 + a) mod 256 = (48 + b) mod 256"
    by (simp add: digit_char_def)
  with a b show "a = b" by simp
qed

lemma str_nat_not_empty: "str_nat n \<noteq> []"
  by (subst str_nat.simps) simp

lemma str_nat_inj: "str_nat n = str_nat m \<Longrightarrow> n = m"
proof (induction n arbitrary: m rule: str_nat.induct)
  case (1 n)
  show ?case
  proof (cases "n < 10")
    case small: True
    show ?thesis
    proof (cases "m < 10")
      case True
      with small "1.prems" have "digit_char n = digit_char m"
        by (simp add: str_nat.simps [of n] str_nat.simps [of m])
      with small True show ?thesis by (rule digit_char_inj)
    next
      case False
      with small "1.prems" have "str_nat (m div 10) = []"
        by (simp add: str_nat.simps [of n] str_nat.simps [of m])
      with str_nat_not_empty show ?thesis by blast
    qed
  next
    case large: False
    show ?thesis
    proof (cases "m < 10")
      case True
      with large "1.prems" have "str_nat (n div 10) = []"
        by (simp add: str_nat.simps [of n] str_nat.simps [of m])
      with str_nat_not_empty show ?thesis by blast
    next
      case False
      with large "1.prems" have front: "str_nat (n div 10) = str_nat (m div 10)"
        and last: "digit_char (n mod 10) = digit_char (m mod 10)"
        by (simp_all add: str_nat.simps [of n] str_nat.simps [of m])
      from "1.IH" [OF large front] have "n div 10 = m div 10" .
      moreover from last have "n mod 10 = m mod 10"
        by (rule digit_char_inj [rotated 2]) simp_all
      ultimately show ?thesis
        by (metis div_mult_mod_eq)
    qed
  qed
qed

lemma doc_id_inj: "inj doc_id"
  by (rule injI) (simp add: doc_id_def str_nat_inj)

lemma distinct_doc_ids: "distinct (map doc_id [0..<n])"
  by (simp add: distinct_map inj_on_subset [OF doc_id_inj])

lemma doc_id_values: "doc_id 0 = ''doc_0''" "doc_id (Suc 0) = ''doc_1''"
  by code_simp+

text \<open>
  Claim C8, as stated, fails: two ingestion calls into the same store, each of one
  document in one chunk, both assign the identifier \<open>doc_0\<close>.
\<close>

theorem ingest_ids_reused_counterexample:
  "map_option add_ids (ingest_documents one_chunk [audit_document]) = Some [''doc_0'']
   \<and> map_option add_ids (ingest_documents one_chunk [cluster_document]) = Some [''doc_0'']
   \<and> map_option add_documents (ingest_documents one_chunk [audit_document])
       = Some [''audit policy'']
   \<and> map_option add_documents (ingest_documents one_chunk [cluster_document])
       = Some [''k8s rbac'']"
  by (simp add: ingest_documents_def one_chunk_def Let_def doc_id_values
      audit_document_def cluster_document_def)

text \<open>
  Claim C8, amended. Chunk identifiers are never reused within one ingestion call: the
  call gives its \<open>n\<close> chunks, in order, the pairwise distinct identifiers \<open>doc_0\<close>, ...,
  \<open>doc_(n-1)\<close>, one for each chunk text and metadata. The numbering is scoped to the
  call and does not depend on what the store already holds.
\<close>

theorem ingest_ids_distinct_within_call:
  assumes "ingest_documents split_documents docs = Some request"
  shows "distinct (add_ids request)
     \<and> add_ids request = map doc_id [0..<length (concat (map split_documents docs))]
     \<and> add_documents request = map page_content (concat (map split_documents docs))
     \<and> add_metadatas request = map doc_metadata (concat (map split_documents docs))
     \<and> length (add_ids request) = length (add_documents request)"
proof -
  from assms have "request =
      \<lparr>add_documents = map page_content (concat (map split_documents docs)),
       add_metadatas = map doc_metadata (concat (map split_documents docs)),
       add_ids = map doc_id [0..<length (concat (map split_documents docs))]\<rparr>"
    by (simp add: ingest_documents_def Let_def split: if_splits)
  then show ?thesis
    by (simp add: distinct_doc_ids)
qed

theorem ingest_ids_distinct_within_call_witness:
  "ingest_documents one_chunk [audit_document, cluster_document] =
     Some \<lparr>add_documents = [''audit policy'', ''k8s rbac''],
           add_metadatas = [md_security, md_infrastructure],
           add_ids = [''doc_0'', ''doc_1'']\<rparr>
   \<and> distinct [''doc_0'', ''doc_1'']
   \<and> [''doc_0'', ''doc_1''] = map doc_id [0..<2]"
proof -
  let ?request = "\<lparr>add_documents = [''audit policy'', ''k8s rbac''],
           add_metadatas = [md_security, md_infrastructure],
           add_ids = [''doc_0'', ''doc_1'']\<rparr>"
  have call: "ingest_documents one_chunk [audit_document, cluster_document] = Some ?request"
    by (simp add: ingest_documents_def one_chunk_def Let_def doc_id_values upt_rec
        audit_document_def cluster_document_def)
  have chunks: "length (concat (map one_chunk [audit_document, cluster_document])) = 2"
    by (simp add: one_chunk_def)
  note facts = ingest_ids_distinct_within_call [OF call]
  from facts have "distinct (add_ids ?request)" by (rule conjunct1)
  then have unique: "distinct [''doc_0'', ''doc_1'']" by (simp only: add_request.simps)
  from facts have "add_ids ?request
      = map doc_id [0..<length (concat (map one_chunk [audit_document, cluster_document]))]"
    by (rule conjunct1 [OF conjunct2])
  then have numbered: "[''doc_0'', ''doc_1''] = map doc_id [0..<2]"
    by (simp only: add_request.simps chunks)
  from call unique numbered show ?thesis by (intro conjI)
qed

section \<open>Chunker configuration\<close>

text \<open>
  Claim C4. The chunk size is 1000 and the overlap 200. The separator list has four
  entries tried in order, ending with the space and the empty separator, but its first
  two entries are the texts backslash-n-backslash-n and backslash-n, not the paragraph
  break and the line break: in a text of two paragraphs neither of them occurs.
\<close>

theorem text_splitter_configuration:
  "chunk_size text_splitter = 1000
   \<and> chunk_overlap text_splitter = 200
   \<and> separators text_splitter
       = [[CHR 0x5C, CHR ''n'', CHR 0x5C, CHR ''n''], [CHR 0x5C, CHR ''n''], '' '', '''']
   \<and> separators text_splitter \<noteq> [newline @ newline, newline, '' '', '''']
   \<and> \<not> py_in (separators text_splitter ! 0)
          (''First paragraph.'' @ newline @ newline @ ''Second paragraph.'')
   \<and> \<not> py_in (separators text_splitter ! 1)
          (''First paragraph.'' @ newline @ newline @ ''Second paragraph.'')
   \<and> py_in (newline @ newline)
        (''First paragraph.'' @ newline @ newline @ ''Second paragraph.'')"
  by (simp add: text_splitter_def backslash_n_def newline_def)

end
